theory Spec2Isabelle
  imports Main
begin

section \<open>Build an Atom: the game's answer evaluation and the atom model\<close>

text \<open>
  A shallow embedding of the parts of the simulation that carry logic: the challenge
  states, the answer check of the "to element" challenges, the conversion done by the
  symbol-entry view, the level-completed branch of the game screen and the
  \<open>setAtomConfiguration\<close> operation of the first tab's model.

  JavaScript numbers that hold particle counts, charges and scores are integers in this
  program and far below \<open>2 ^ 53\<close>, so they are modelled by \<open>int\<close> (by \<open>nat\<close> where the
  source reads the length of a collection). \<open>===\<close> on such numbers and on strings is HOL
  equality.
\<close>

subsection \<open>NumberAtom\<close>

text \<open>
  Modelled from the spec: \<open>NumberAtom\<close> is required from \<open>SHRED/model/NumberAtom\<close>
  and is not under src. The spec's data model gives it three counts and two derived
  values, \<open>massNumber = protons + neutrons\<close> and \<open>charge = protons - electrons\<close>, and
  calls two atoms equivalent iff all three counts match. The fields carry the spec's
  names; the source reads them as \<open>protonCountProperty.get()\<close> and so on.
\<close>

record NumberAtom =
  protonCount :: int
  neutronCount :: int
  electronCount :: int

definition charge :: "NumberAtom \<Rightarrow> int" where
  "charge a = protonCount a - electronCount a"

definition massNumber :: "NumberAtom \<Rightarrow> int" where
  "massNumber a = protonCount a + neutronCount a"

definition NumberAtom_equals :: "NumberAtom \<Rightarrow> NumberAtom \<Rightarrow> bool" where
  "NumberAtom_equals a b =
     (protonCount a = protonCount b \<and> neutronCount a = neutronCount b \<and>
      electronCount a = electronCount b)"

subsection \<open>BAAChallengeState\<close>

text \<open>
  \<^verbatim>\<open>
  const BAAChallengeState = {
    PRESENTING_CHALLENGE: 'presentingChallenge',
    CHALLENGE_SOLVED_CORRECTLY: 'challengeSolvedCorrectly',
    PRESENTING_TRY_AGAIN: 'presentingTryAgain',
    ATTEMPTS_EXHAUSTED: 'attemptsExhausted',
    DISPLAYING_CORRECT_ANSWER: 'displayingCorrectAnswer'
  };
  \<close>
  The object literal is kept as the list of its entries, in the order of the source; the
  datatype names its keys, and \<open>BAAChallengeState_value\<close> gives the string each key holds,
  which is what a challenge's state property stores and what \<open>===\<close> compares.
\<close>

datatype BAAChallengeState =
  PRESENTING_CHALLENGE
| CHALLENGE_SOLVED_CORRECTLY
| PRESENTING_TRY_AGAIN
| ATTEMPTS_EXHAUSTED
| DISPLAYING_CORRECT_ANSWER

definition BAAChallengeState_entries :: "(string \<times> string) list" where
  "BAAChallengeState_entries =
     [(''PRESENTING_CHALLENGE'', ''presentingChallenge''),
      (''CHALLENGE_SOLVED_CORRECTLY'', ''challengeSolvedCorrectly''),
      (''PRESENTING_TRY_AGAIN'', ''presentingTryAgain''),
      (''ATTEMPTS_EXHAUSTED'', ''attemptsExhausted''),
      (''DISPLAYING_CORRECT_ANSWER'', ''displayingCorrectAnswer'')]"

fun BAAChallengeState_key :: "BAAChallengeState \<Rightarrow> string" where
  "BAAChallengeState_key PRESENTING_CHALLENGE = ''PRESENTING_CHALLENGE''"
| "BAAChallengeState_key CHALLENGE_SOLVED_CORRECTLY = ''CHALLENGE_SOLVED_CORRECTLY''"
| "BAAChallengeState_key PRESENTING_TRY_AGAIN = ''PRESENTING_TRY_AGAIN''"
| "BAAChallengeState_key ATTEMPTS_EXHAUSTED = ''ATTEMPTS_EXHAUSTED''"
| "BAAChallengeState_key DISPLAYING_CORRECT_ANSWER = ''DISPLAYING_CORRECT_ANSWER''"

fun BAAChallengeState_value :: "BAAChallengeState \<Rightarrow> string" where
  "BAAChallengeState_value PRESENTING_CHALLENGE = ''presentingChallenge''"
| "BAAChallengeState_value CHALLENGE_SOLVED_CORRECTLY = ''challengeSolvedCorrectly''"
| "BAAChallengeState_value PRESENTING_TRY_AGAIN = ''presentingTryAgain''"
| "BAAChallengeState_value ATTEMPTS_EXHAUSTED = ''attemptsExhausted''"
| "BAAChallengeState_value DISPLAYING_CORRECT_ANSWER = ''displayingCorrectAnswer''"

subsection \<open>Challenges\<close>

text \<open>
  A challenge object, reduced to the fields the answer check reads and the state machine
  writes. \<open>attemptsMade\<close> is the spec's name for the number of submissions so far.
\<close>

record BAAGameChallenge =
  answerAtom :: NumberAtom
  challengeType :: string
  challengeStateProperty :: BAAChallengeState
  attemptsMade :: nat

text \<open>
  Modelled from the spec: the constructor of the base type \<open>BAAGameChallenge\<close> is not
  under src. The spec's data model says a challenge is created with
  \<open>state = PRESENTING_CHALLENGE\<close> and \<open>attemptsMade = 0\<close>.
\<close>

definition new_BAAGameChallenge :: "NumberAtom \<Rightarrow> string \<Rightarrow> BAAGameChallenge" where
  "new_BAAGameChallenge answer ctype =
     \<lparr>answerAtom = answer, challengeType = ctype,
      challengeStateProperty = PRESENTING_CHALLENGE, attemptsMade = 0\<rparr>"

text \<open>
  \<^verbatim>\<open>
  function ToElementChallenge( buildAnAtomGameModel, answerAtom, challengeType, tandem ) {
    BAAGameChallenge.call( this, buildAnAtomGameModel, answerAtom, challengeType, tandem );
  }
  \<close>
\<close>

definition ToElementChallenge :: "NumberAtom \<Rightarrow> string \<Rightarrow> BAAGameChallenge" where
  "ToElementChallenge answer ctype = new_BAAGameChallenge answer ctype"

datatype error =
  AssertionError string
| TypeError
| RemoveError

text \<open>
  The options object that \<open>checkAnswer\<close> hands on with its verdict; a caller that passes
  no options leaves the parameter \<open>undefined\<close>, which is \<open>None\<close>.
\<close>

record EmitMessageOptions =
  correctCharge :: string
  submittedCharge :: string

text \<open>
  \<^verbatim>\<open>
  checkAnswer: function( submittedAtom, submittedNeutralOrIon ) {
    assert && assert(
      this.challengeStateProperty.get() === BAAChallengeState.PRESENTING_CHALLENGE,
      'Unexpected challenge state: ' + this.challengeStateProperty.get()
    );
    const isCorrect = submittedAtom.protonCountProperty.get() === this.answerAtom.protonCountProperty.get() &&
                    submittedAtom.neutronCountProperty.get() === this.answerAtom.neutronCountProperty.get() &&
                    ( ( submittedNeutralOrIon === 'neutral' && this.answerAtom.chargeProperty.get() === 0 ) ||
                      ( submittedNeutralOrIon === 'ion' && this.answerAtom.chargeProperty.get() !== 0 ) );
    this.handleEvaluatedAnswer( submittedAtom, isCorrect, {
      correctCharge: this.answerAtom.chargeProperty.get() === 0 ? 'neutral' : 'ion',
      submittedCharge: submittedNeutralOrIon
    } );
  }
  \<close>
  \<open>assert\<close> is a global that is a function when assertions are enabled and falsy
  otherwise: \<open>assertEnabled\<close>. A failing assertion throws, and nothing after it runs.
  \<open>handleEvaluatedAnswer\<close> belongs to the base type, which is not under src; it is a
  parameter, so that the model says exactly which arguments it is called with.
\<close>

definition checkAnswer ::
  "bool \<Rightarrow> (BAAGameChallenge \<Rightarrow> NumberAtom \<Rightarrow> bool \<Rightarrow> EmitMessageOptions option \<Rightarrow> 'r) \<Rightarrow>
   BAAGameChallenge \<Rightarrow> NumberAtom \<Rightarrow> string \<Rightarrow> error + 'r" where
  "checkAnswer assertEnabled handleEvaluatedAnswer this submittedAtom submittedNeutralOrIon =
     (if assertEnabled \<and> \<not> (challengeStateProperty this = PRESENTING_CHALLENGE)
      then Inl (AssertionError (''Unexpected challenge state: '' @
                  BAAChallengeState_value (challengeStateProperty this)))
      else
        let isCorrect =
              (protonCount submittedAtom = protonCount (answerAtom this) \<and>
               neutronCount submittedAtom = neutronCount (answerAtom this) \<and>
               ((submittedNeutralOrIon = ''neutral'' \<and> charge (answerAtom this) = 0) \<or>
                (submittedNeutralOrIon = ''ion'' \<and> charge (answerAtom this) \<noteq> 0)))
        in Inr (handleEvaluatedAnswer this submittedAtom isCorrect
                  (Some \<lparr>correctCharge = (if charge (answerAtom this) = 0 then ''neutral'' else ''ion''),
                   submittedCharge = submittedNeutralOrIon\<rparr>)))"

text \<open>
  A handler that only records what it was called with: the verdict and the detail that
  \<open>checkAnswer\<close> reports.
\<close>

record Evaluation =
  evaluatedAtom :: NumberAtom
  isCorrect :: bool
  detail :: "EmitMessageOptions option"

definition reportEvaluation ::
  "BAAGameChallenge \<Rightarrow> NumberAtom \<Rightarrow> bool \<Rightarrow> EmitMessageOptions option \<Rightarrow> Evaluation" where
  "reportEvaluation this submittedAtom correct opts =
     \<lparr>evaluatedAtom = submittedAtom, isCorrect = correct, detail = opts\<rparr>"

text \<open>
  Names for the pieces of the check that the statements below repeat: whether the state
  assertion throws, the error it throws, and the classification of an atom by the sign
  of its charge.
\<close>

definition assertionFails :: "bool \<Rightarrow> BAAGameChallenge \<Rightarrow> bool" where
  "assertionFails assertEnabled this =
     (assertEnabled \<and> challengeStateProperty this \<noteq> PRESENTING_CHALLENGE)"

definition unexpectedState :: "BAAGameChallenge \<Rightarrow> error" where
  "unexpectedState this =
     AssertionError (''Unexpected challenge state: '' @
       BAAChallengeState_value (challengeStateProperty this))"

definition chargeClass :: "NumberAtom \<Rightarrow> string" where
  "chargeClass a = (if charge a = 0 then ''neutral'' else ''ion'')"

subsection \<open>The base type's answer handling\<close>

text \<open>
  Modelled from the spec: \<open>BAAGameChallenge.handleEvaluatedAnswer\<close> and the number of
  attempts allowed are not under src. The spec's state machine (section 4.2): every
  submit increments \<open>attemptsMade\<close> once; a correct submit leads to
  CHALLENGE\_SOLVED\_CORRECTLY; an incorrect one leads from PRESENTING\_CHALLENGE to
  PRESENTING\_TRY\_AGAIN when \<open>attemptsMade + 1 < MAX_ATTEMPTS\<close> and to ATTEMPTS\_EXHAUSTED
  when \<open>attemptsMade + 1 = MAX_ATTEMPTS\<close>, and from PRESENTING\_TRY\_AGAIN to
  ATTEMPTS\_EXHAUSTED; \<open>MAX_ATTEMPTS = 2\<close>.
\<close>

definition MAX_ATTEMPTS :: nat where
  "MAX_ATTEMPTS = 2"

definition handleEvaluatedAnswer ::
  "BAAGameChallenge \<Rightarrow> NumberAtom \<Rightarrow> bool \<Rightarrow> EmitMessageOptions option \<Rightarrow> BAAGameChallenge" where
  "handleEvaluatedAnswer this submittedAtom correct opts =
     this\<lparr>attemptsMade := attemptsMade this + 1,
          challengeStateProperty :=
            (if correct then CHALLENGE_SOLVED_CORRECTLY
             else if challengeStateProperty this = PRESENTING_CHALLENGE \<and>
                     attemptsMade this + 1 < MAX_ATTEMPTS
                  then PRESENTING_TRY_AGAIN
             else ATTEMPTS_EXHAUSTED)\<rparr>"

text \<open>
  Modelled from the spec: \<open>BAAGameChallenge.checkAnswer\<close>, the check that every
  challenge type other than the to-element ones inherits, is not under src. The spec's rule
  for the counts, charge, mass and symbol types (section 4.1): correct iff all three of
  protonCount, neutronCount and electronCount match exactly between submitted and answer;
  no detail is reported. The verdict goes to \<open>handleEvaluatedAnswer\<close>, here the
  parameter \<open>handler\<close>.
\<close>

definition BAAGameChallenge_checkAnswer ::
  "(BAAGameChallenge \<Rightarrow> NumberAtom \<Rightarrow> bool \<Rightarrow> EmitMessageOptions option \<Rightarrow> 'r) \<Rightarrow>
   BAAGameChallenge \<Rightarrow> NumberAtom \<Rightarrow> 'r" where
  "BAAGameChallenge_checkAnswer handler this submittedAtom =
     (let isCorrect = NumberAtom_equals (answerAtom this) submittedAtom
      in handler this submittedAtom isCorrect None)"

subsection \<open>CountsToSymbolChallengeView\<close>

text \<open>The three numbers the player edits in the interactive element symbol.\<close>

record InteractiveSymbolNode =
  protonCountProperty :: int
  massNumberProperty :: int
  chargeProperty :: int

record CountsToSymbolChallengeView =
  interactiveSymbolNode :: InteractiveSymbolNode
  challenge :: BAAGameChallenge

text \<open>
  \<^verbatim>\<open>
  checkAnswer: function() {
    const userSubmittedAtom = new NumberAtom( {
      protonCount: this.interactiveSymbolNode.protonCountProperty.value,
      neutronCount: this.interactiveSymbolNode.massNumberProperty.value - this.interactiveSymbolNode.protonCountProperty.value,
      electronCount: this.interactiveSymbolNode.protonCountProperty.value - this.interactiveSymbolNode.chargeProperty.value
    } );
    this.challenge.checkAnswer( userSubmittedAtom );
  },
  \<close>
  The challenge's own \<open>checkAnswer\<close> is the parameter \<open>challenge_checkAnswer\<close>.
\<close>

definition CountsToSymbolChallengeView_checkAnswer ::
  "(BAAGameChallenge \<Rightarrow> NumberAtom \<Rightarrow> 'r) \<Rightarrow> CountsToSymbolChallengeView \<Rightarrow> 'r" where
  "CountsToSymbolChallengeView_checkAnswer challenge_checkAnswer this =
     (let userSubmittedAtom =
            \<lparr>protonCount = protonCountProperty (interactiveSymbolNode this),
             neutronCount = massNumberProperty (interactiveSymbolNode this) -
                            protonCountProperty (interactiveSymbolNode this),
             electronCount = protonCountProperty (interactiveSymbolNode this) -
                             chargeProperty (interactiveSymbolNode this)\<rparr>
      in challenge_checkAnswer (challenge this) userSubmittedAtom)"

text \<open>
  \<^verbatim>\<open>
  displayCorrectAnswer: function() {
    this.interactiveSymbolNode.protonCountProperty.value = this.challenge.answerAtom.protonCountProperty.get();
    this.interactiveSymbolNode.massNumberProperty.value = this.challenge.answerAtom.massNumberProperty.get();
    this.interactiveSymbolNode.chargeProperty.value = this.challenge.answerAtom.chargeProperty.get();
  },
  \<close>
\<close>

definition CountsToSymbolChallengeView_displayCorrectAnswer ::
  "CountsToSymbolChallengeView \<Rightarrow> CountsToSymbolChallengeView" where
  "CountsToSymbolChallengeView_displayCorrectAnswer this =
     this\<lparr>interactiveSymbolNode :=
            (interactiveSymbolNode this)
              \<lparr>protonCountProperty := protonCount (answerAtom (challenge this)),
               massNumberProperty := massNumber (answerAtom (challenge this)),
               chargeProperty := charge (answerAtom (challenge this))\<rparr>\<rparr>"

subsection \<open>ToElementProblemView\<close>

text \<open>
  The view of a to-element challenge holds the atom picked on the periodic table and the
  radio button's value, which starts as \<open>'noSelection'\<close>.
  \<^verbatim>\<open>
  checkAnswer: function() {
    this.problem.checkAnswer( this.periodicTableAtom, this.neutralOrIon.value );
  },
  displayCorrectAnswer: function() {
    this.periodicTableAtom.protonCount = this.problem.answerAtom.protonCount;
    this.periodicTableAtom.neutronCount = this.problem.answerAtom.neutronCount;
    this.periodicTableAtom.electronCount = this.problem.answerAtom.electronCount;
    this.neutralOrIon.value = this.problem.answerAtom.charge === 0 ? 'neutral' : 'ion';
  }
  \<close>
\<close>

record ToElementProblemView =
  periodicTableAtom :: NumberAtom
  neutralOrIon :: string
  problem :: BAAGameChallenge

definition ToElementProblemView_checkAnswer ::
  "(BAAGameChallenge \<Rightarrow> NumberAtom \<Rightarrow> string \<Rightarrow> 'r) \<Rightarrow> ToElementProblemView \<Rightarrow> 'r" where
  "ToElementProblemView_checkAnswer problem_checkAnswer this =
     problem_checkAnswer (problem this) (periodicTableAtom this) (neutralOrIon this)"

definition ToElementProblemView_displayCorrectAnswer ::
  "ToElementProblemView \<Rightarrow> ToElementProblemView" where
  "ToElementProblemView_displayCorrectAnswer this =
     this\<lparr>periodicTableAtom :=
            (periodicTableAtom this)
              \<lparr>protonCount := protonCount (answerAtom (problem this)),
               neutronCount := neutronCount (answerAtom (problem this)),
               electronCount := electronCount (answerAtom (problem this))\<rparr>,
          neutralOrIon := (if charge (answerAtom (problem this)) = 0 then ''neutral'' else ''ion'')\<rparr>"

subsection \<open>BAAGameScreenView: the level-completed branch\<close>

text \<open>
  What the branch reads from the game model. Times are opaque values of type \<open>'t\<close>;
  \<open>bestTimes\<close> is the array indexed by level.
\<close>

record 't BAAGameModel =
  scoreProperty :: int
  provideFeedbackProperty :: bool
  levelProperty :: nat
  timerEnabledProperty :: bool
  elapsedTimeProperty :: 't
  bestTimes :: "'t list"
  newBestTime :: bool

text \<open>
  Modelled from the spec: the static constants of \<open>BAAGameModel\<close> are not under src.
  \<open>CHALLENGES_PER_LEVEL\<close> and the points for a first-attempt solution are parameters, and
  the spec gives the maximum of a level as \<open>count \<times> POINTS_FOR_FIRST_ATTEMPT\<close>.
\<close>

record BAAGameModel_constants =
  CHALLENGES_PER_LEVEL :: int
  POINTS_FOR_FIRST_ATTEMPT :: int

definition MAX_POINTS_PER_GAME_LEVEL :: "BAAGameModel_constants \<Rightarrow> int" where
  "MAX_POINTS_PER_GAME_LEVEL c = CHALLENGES_PER_LEVEL c * POINTS_FOR_FIRST_ATTEMPT c"

text \<open>
  The scene-graph nodes the branch creates, and the calls it makes on the audio player.
  \<open>LevelCompletedNode\<close> keeps the constructor's first eight arguments.
\<close>

datatype 't Node =
  StartGameLevelNode
| BAARewardNode
| LevelCompletedNode int int int int bool 't 't bool

datatype GameAudioPlayer_call = gameOverPerfectScore | gameOverImperfectScore

record 't BAAGameScreenView =
  rootNode :: "'t Node list"
  rewardNode :: "'t Node option"
  levelCompletedNode :: "'t Node option"

text \<open>
  \<^verbatim>\<open>
  else if ( state === BAAGameState.LEVEL_COMPLETED ) {
    rootNode.removeAllChildren();
    if ( gameModel.scoreProperty.get() === BAAGameModel.MAX_POINTS_PER_GAME_LEVEL || BAAQueryParameters.reward ) {
      // Perfect score, add the reward node.
      self.rewardNode = new BAARewardNode( tandem.createTandem( 'rewardNode' ) );
      rootNode.addChild( self.rewardNode );
      // Play the appropriate audio feedback
      gameAudioPlayer.gameOverPerfectScore();
    }
    else if ( gameModel.scoreProperty.get() > 0 ) {
      gameAudioPlayer.gameOverImperfectScore();
    }
    if ( gameModel.provideFeedbackProperty.get() ) {
      // Add the dialog node that indicates that the level has been completed.
      self.levelCompletedNode = new LevelCompletedNode(
        gameModel.levelProperty.get() + 1,
        gameModel.scoreProperty.get(),
        BAAGameModel.MAX_POINTS_PER_GAME_LEVEL,
        BAAGameModel.CHALLENGES_PER_LEVEL,
        gameModel.timerEnabledProperty.get(),
        gameModel.elapsedTimeProperty.get(),
        gameModel.bestTimes[ gameModel.levelProperty.get() ].value,
        gameModel.newBestTime,
        function() { gameModel.stateProperty.set( BAAGameState.CHOOSING_LEVEL ); }, { ... } );
      rootNode.addChild( self.levelCompletedNode );
    }
  }
  \<close>
  The result is the view after the branch together with the audio calls made, in order.
  \<open>reward\<close> is the query parameter \<open>BAAQueryParameters.reward\<close>. Reading \<open>.value\<close> of
  an entry that \<open>bestTimes\<close> does not have throws a TypeError.
\<close>

definition LEVEL_COMPLETED ::
  "BAAGameModel_constants \<Rightarrow> bool \<Rightarrow> 't BAAGameModel \<Rightarrow> 't BAAGameScreenView \<Rightarrow>
   error + ('t BAAGameScreenView \<times> GameAudioPlayer_call list)" where
  "LEVEL_COMPLETED c reward gameModel self =
     (let v0 = self\<lparr>rootNode := []\<rparr>;
          (v1, played) =
            (if scoreProperty gameModel = MAX_POINTS_PER_GAME_LEVEL c \<or> reward
             then (v0\<lparr>rewardNode := Some BAARewardNode, rootNode := rootNode v0 @ [BAARewardNode]\<rparr>,
                   [gameOverPerfectScore])
             else if scoreProperty gameModel > 0
             then (v0, [gameOverImperfectScore])
             else (v0, []))
      in if provideFeedbackProperty gameModel
         then (if levelProperty gameModel < length (bestTimes gameModel)
               then (let n = LevelCompletedNode
                               (int (levelProperty gameModel) + 1)
                               (scoreProperty gameModel)
                               (MAX_POINTS_PER_GAME_LEVEL c)
                               (CHALLENGES_PER_LEVEL c)
                               (timerEnabledProperty gameModel)
                               (elapsedTimeProperty gameModel)
                               (bestTimes gameModel ! levelProperty gameModel)
                               (newBestTime gameModel)
                     in Inr (v1\<lparr>levelCompletedNode := Some n, rootNode := rootNode v1 @ [n]\<rparr>, played))
               else Inl TypeError)
         else Inr (v1, played))"

text \<open>
  The celebratory outcome of a call: the reward node is on the screen and the
  perfect-score sound was asked for.
\<close>

definition perfectScoreOutcome :: "'t BAAGameScreenView \<times> GameAudioPlayer_call list \<Rightarrow> bool" where
  "perfectScoreOutcome r = (BAARewardNode \<in> set (rootNode (fst r)) \<and> gameOverPerfectScore \<in> set (snd r))"

subsection \<open>BuildAnAtomModel\<close>

text \<open>
  A particle is an object with a type; \<open>particleId\<close> stands for the object's identity.
  The particle atom (SHRED) and the buckets (PHETCOMMON) are library objects that are not
  part of this repository; they are modelled as the lists of particles they hold, with
  the operations the model calls on them:
  \<^item> \<open>ParticleAtom.addParticle\<close> appends the particle to the collection of its type;
  \<^item> \<open>ParticleAtom.removeParticle\<close> removes the particle from the collection that
    contains it and throws when none does;
  \<^item> \<open>SphereBucket.addParticleFirstOpen\<close> puts the particle into the bucket;
  \<^item> \<open>SphereBucket.extractClosestParticle\<close> takes the particle nearest to a point out
    of the bucket and returns it, or returns \<open>null\<close> when the bucket is empty. Positions
    are not modelled: which particle is nearest is the parameter \<open>closest\<close>.
\<close>

datatype ParticleType = proton | neutron | electron

record Particle =
  particleType :: ParticleType
  particleId :: nat

record ParticleAtom =
  protons :: "Particle list"
  neutrons :: "Particle list"
  electrons :: "Particle list"

record Buckets =
  protonBucket :: "Particle list"
  neutronBucket :: "Particle list"
  electronBucket :: "Particle list"

record BuildAnAtomModel =
  particleAtom :: ParticleAtom
  buckets :: Buckets

definition NUM_PROTONS :: nat where "NUM_PROTONS = 10"
definition NUM_NEUTRONS :: nat where "NUM_NEUTRONS = 13"
definition NUM_ELECTRONS :: nat where "NUM_ELECTRONS = 10"

text \<open>
  The constructor creates the particles and puts every one into the bucket of its type;
  the atom starts empty.
\<close>

definition new_BuildAnAtomModel :: BuildAnAtomModel where
  "new_BuildAnAtomModel =
     \<lparr>particleAtom = \<lparr>protons = [], neutrons = [], electrons = []\<rparr>,
      buckets =
        \<lparr>protonBucket = map (\<lambda>i. \<lparr>particleType = proton, particleId = i\<rparr>) [0..<NUM_PROTONS],
         neutronBucket = map (\<lambda>i. \<lparr>particleType = neutron, particleId = i\<rparr>) [0..<NUM_NEUTRONS],
         electronBucket = map (\<lambda>i. \<lparr>particleType = electron, particleId = i\<rparr>) [0..<NUM_ELECTRONS]\<rparr>\<rparr>"

definition ParticleAtom_addParticle :: "ParticleAtom \<Rightarrow> Particle \<Rightarrow> ParticleAtom" where
  "ParticleAtom_addParticle atom particle =
     (case particleType particle of
        proton \<Rightarrow> atom\<lparr>protons := protons atom @ [particle]\<rparr>
      | neutron \<Rightarrow> atom\<lparr>neutrons := neutrons atom @ [particle]\<rparr>
      | electron \<Rightarrow> atom\<lparr>electrons := electrons atom @ [particle]\<rparr>)"

definition ParticleAtom_removeParticle :: "ParticleAtom \<Rightarrow> Particle \<Rightarrow> error + ParticleAtom" where
  "ParticleAtom_removeParticle atom particle =
     (if particle \<in> set (protons atom) then Inr (atom\<lparr>protons := remove1 particle (protons atom)\<rparr>)
      else if particle \<in> set (neutrons atom) then Inr (atom\<lparr>neutrons := remove1 particle (neutrons atom)\<rparr>)
      else if particle \<in> set (electrons atom) then Inr (atom\<lparr>electrons := remove1 particle (electrons atom)\<rparr>)
      else Inl RemoveError)"

definition SphereBucket_addParticleFirstOpen :: "Particle list \<Rightarrow> Particle \<Rightarrow> Particle list" where
  "SphereBucket_addParticleFirstOpen bucket particle = bucket @ [particle]"

definition SphereBucket_extractClosestParticle ::
  "(Particle list \<Rightarrow> Particle) \<Rightarrow> Particle list \<Rightarrow> (Particle \<times> Particle list) option" where
  "SphereBucket_extractClosestParticle closest bucket =
     (if bucket = [] then None else Some (closest bucket, remove1 (closest bucket) bucket))"

text \<open>
  The closure \<open>moveParticlesToAtom\<close> receives a collection of the atom and a bucket by
  reference. The model passes the particle type that selects both.
\<close>

fun particlesInAtom :: "ParticleType \<Rightarrow> ParticleAtom \<Rightarrow> Particle list" where
  "particlesInAtom proton atom = protons atom"
| "particlesInAtom neutron atom = neutrons atom"
| "particlesInAtom electron atom = electrons atom"

fun bucketOf :: "ParticleType \<Rightarrow> Buckets \<Rightarrow> Particle list" where
  "bucketOf proton bs = protonBucket bs"
| "bucketOf neutron bs = neutronBucket bs"
| "bucketOf electron bs = electronBucket bs"

fun bucket_update :: "ParticleType \<Rightarrow> Particle list \<Rightarrow> Buckets \<Rightarrow> Buckets" where
  "bucket_update proton b bs = bs\<lparr>protonBucket := b\<rparr>"
| "bucket_update neutron b bs = bs\<lparr>neutronBucket := b\<rparr>"
| "bucket_update electron b bs = bs\<lparr>electronBucket := b\<rparr>"

text \<open>
  \<^verbatim>\<open>
  _moveParticlesFromAtomToBucket: function( particleCollection, bucket ) {
    const particlesToRemove = [];
    // Copy the observable particle collection into a regular array.
    for ( let i = 0; i < particleCollection.length; i++ ) {
      particlesToRemove[ i ] = particleCollection.get( i );
    }
    const self = this;
    particlesToRemove.forEach( function( particle ) {
        self.particleAtom.removeParticle( particle );
        bucket.addParticleFirstOpen( particle );
      }
    );
  },
  \<close>
  \<open>forEach_particlesToRemove\<close> is the \<open>forEach\<close> over the copy.
\<close>

fun forEach_particlesToRemove ::
  "ParticleType \<Rightarrow> Particle list \<Rightarrow> BuildAnAtomModel \<Rightarrow> error + BuildAnAtomModel" where
  "forEach_particlesToRemove k [] self = Inr self"
| "forEach_particlesToRemove k (particle # rest) self =
     (case ParticleAtom_removeParticle (particleAtom self) particle of
        Inl e \<Rightarrow> Inl e
      | Inr atom \<Rightarrow>
          forEach_particlesToRemove k rest
            (self\<lparr>particleAtom := atom,
                  buckets := bucket_update k
                    (SphereBucket_addParticleFirstOpen (bucketOf k (buckets self)) particle)
                    (buckets self)\<rparr>))"

definition moveParticlesFromAtomToBucket ::
  "ParticleType \<Rightarrow> BuildAnAtomModel \<Rightarrow> error + BuildAnAtomModel" where
  "moveParticlesFromAtomToBucket k self =
     (let particlesToRemove = particlesInAtom k (particleAtom self)
      in forEach_particlesToRemove k particlesToRemove self)"

text \<open>
  Each particle has a listener on its \<open>userControlledProperty\<close>, set up by the
  constructor:
  \<^verbatim>\<open>
  proton.userControlledProperty.link( function( userControlled ) {
    if ( !userControlled && !self.buckets.protonBucket.containsParticle( proton ) ) {
      placeNucleon( proton, self.buckets.protonBucket, self.particleAtom );
    }
  } );
  \<close>
  \<open>setAtomConfiguration\<close> sets the property to false on a particle that it has just put
  at the atom's centre, so \<open>placeNucleon\<close> finds the particle within the capture radius
  and adds it to the atom (the electrons' listener does the same within the outer
  shell's radius).
\<close>

definition userControlledListener ::
  "ParticleType \<Rightarrow> BuildAnAtomModel \<Rightarrow> Particle \<Rightarrow> BuildAnAtomModel" where
  "userControlledListener k self particle =
     (if particle \<notin> set (bucketOf k (buckets self))
      then self\<lparr>particleAtom := ParticleAtom_addParticle (particleAtom self) particle\<rparr>
      else self)"

text \<open>
  \<^verbatim>\<open>
  const moveParticlesToAtom = function( currentCountInAtom, targetCountInAtom, particlesInAtom, bucket ) {
    while ( currentCountInAtom < targetCountInAtom ) {
      const particle = bucket.extractClosestParticle( atomCenter );
      particle.setPositionAndDestination( atomCenter );
      particle.userControlledProperty.set( false ); // Necessary to make it look like user released particle.
      currentCountInAtom++;
    }
    while ( currentCountInAtom > targetCountInAtom ) {
      self._moveParticlesFromAtomToBucket( particlesInAtom, bucket );
      currentCountInAtom--;
    }
  };
  \<close>
  The two loops are \<open>moveParticlesToAtom_up\<close> and \<open>moveParticlesToAtom_down\<close>. A call on
  the \<open>null\<close> that an empty bucket returns throws a TypeError.
\<close>

function moveParticlesToAtom_up ::
  "(Particle list \<Rightarrow> Particle) \<Rightarrow> ParticleType \<Rightarrow> int \<Rightarrow> int \<Rightarrow> BuildAnAtomModel \<Rightarrow>
   error + (int \<times> BuildAnAtomModel)" where
  "moveParticlesToAtom_up closest k currentCountInAtom targetCountInAtom self =
     (if currentCountInAtom < targetCountInAtom
      then (case SphereBucket_extractClosestParticle closest (bucketOf k (buckets self)) of
              None \<Rightarrow> Inl TypeError
            | Some (particle, bucket) \<Rightarrow>
                moveParticlesToAtom_up closest k (currentCountInAtom + 1) targetCountInAtom
                  (userControlledListener k (self\<lparr>buckets := bucket_update k bucket (buckets self)\<rparr>) particle))
      else Inr (currentCountInAtom, self))"
  by pat_completeness auto
termination
  by (relation "measure (\<lambda>(closest, k, cur, tgt, self). nat (tgt - cur))") auto

function moveParticlesToAtom_down ::
  "ParticleType \<Rightarrow> int \<Rightarrow> int \<Rightarrow> BuildAnAtomModel \<Rightarrow> error + BuildAnAtomModel" where
  "moveParticlesToAtom_down k currentCountInAtom targetCountInAtom self =
     (if currentCountInAtom > targetCountInAtom
      then (case moveParticlesFromAtomToBucket k self of
              Inl e \<Rightarrow> Inl e
            | Inr self' \<Rightarrow> moveParticlesToAtom_down k (currentCountInAtom - 1) targetCountInAtom self')
      else Inr self)"
  by pat_completeness auto
termination
  by (relation "measure (\<lambda>(k, cur, tgt, self). nat (cur - tgt))") auto

declare moveParticlesToAtom_up.simps [simp del]
declare moveParticlesToAtom_down.simps [simp del]

definition moveParticlesToAtom ::
  "(Particle list \<Rightarrow> Particle) \<Rightarrow> int \<Rightarrow> int \<Rightarrow> ParticleType \<Rightarrow> BuildAnAtomModel \<Rightarrow>
   error + BuildAnAtomModel" where
  "moveParticlesToAtom closest currentCountInAtom targetCountInAtom k self =
     (case moveParticlesToAtom_up closest k currentCountInAtom targetCountInAtom self of
        Inl e \<Rightarrow> Inl e
      | Inr (currentCountInAtom', self') \<Rightarrow>
          moveParticlesToAtom_down k currentCountInAtom' targetCountInAtom self')"

text \<open>
  \<^verbatim>\<open>
  // @public - set the atom to the specified configuration
  setAtomConfiguration: function( numberAtom ) {
    ...
    // Move the particles.
    moveParticlesToAtom( this.particleAtom.protons.length,
      numberAtom.protonCountProperty.get(),
      this.particleAtom.protons,
      this.buckets.protonBucket
    );
    moveParticlesToAtom(
      this.particleAtom.neutrons.length,
      numberAtom.neutronCountProperty.get(),
      this.particleAtom.neutrons,
      this.buckets.neutronBucket
    );
    moveParticlesToAtom(
      this.particleAtom.electrons.length,
      numberAtom.electronCountProperty.get(),
      this.particleAtom.electrons,
      this.buckets.electronBucket
    );
    // Finalize particle positions.
    this.particleAtom.moveAllParticlesToDestination();
  }
  \<close>
  The last call moves particles on the screen and changes no collection.
\<close>

definition setAtomConfiguration ::
  "(Particle list \<Rightarrow> Particle) \<Rightarrow> BuildAnAtomModel \<Rightarrow> NumberAtom \<Rightarrow> error + BuildAnAtomModel" where
  "setAtomConfiguration closest self numberAtom =
     (case moveParticlesToAtom closest (int (length (protons (particleAtom self))))
             (protonCount numberAtom) proton self of
        Inl e \<Rightarrow> Inl e
      | Inr self1 \<Rightarrow>
     (case moveParticlesToAtom closest (int (length (neutrons (particleAtom self1))))
             (neutronCount numberAtom) neutron self1 of
        Inl e \<Rightarrow> Inl e
      | Inr self2 \<Rightarrow>
          moveParticlesToAtom closest (int (length (electrons (particleAtom self2))))
            (electronCount numberAtom) electron self2))"

text \<open>
  \<^verbatim>\<open>
  this.nucleusStableProperty = new DerivedProperty(
    [ this.particleAtom.protonCountProperty, this.particleAtom.neutronCountProperty ],
    function( protonCount, neutronCount ) {
      return protonCount + neutronCount > 0 ? AtomIdentifier.isStable( protonCount, neutronCount ) : true;
    }, ... );
  \<close>
  The particle atom's count properties are the lengths of its collections.
  \<open>AtomIdentifier.isStable\<close> (SHRED) is the parameter \<open>isStable\<close>.
\<close>

definition nucleusStableProperty :: "(nat \<Rightarrow> nat \<Rightarrow> bool) \<Rightarrow> BuildAnAtomModel \<Rightarrow> bool" where
  "nucleusStableProperty isStable self =
     (let protonCount = length (protons (particleAtom self));
          neutronCount = length (neutrons (particleAtom self))
      in if protonCount + neutronCount > 0 then isStable protonCount neutronCount else True)"

text \<open>
  A state of the first tab that the player reaches by dragging two protons into the atom:
  every other particle is still in its bucket.
\<close>

definition modelWithTwoProtons :: BuildAnAtomModel where
  "modelWithTwoProtons =
     \<lparr>particleAtom =
        \<lparr>protons = [\<lparr>particleType = proton, particleId = 0\<rparr>, \<lparr>particleType = proton, particleId = 1\<rparr>],
         neutrons = [], electrons = []\<rparr>,
      buckets =
        \<lparr>protonBucket = map (\<lambda>i. \<lparr>particleType = proton, particleId = i\<rparr>) [2..<NUM_PROTONS],
         neutronBucket = map (\<lambda>i. \<lparr>particleType = neutron, particleId = i\<rparr>) [0..<NUM_NEUTRONS],
         electronBucket = map (\<lambda>i. \<lparr>particleType = electron, particleId = i\<rparr>) [0..<NUM_ELECTRONS]\<rparr>\<rparr>"

section \<open>Properties\<close>

subsection \<open>Shared facts\<close>

lemma checkAnswer_cases:
  "checkAnswer assertEnabled h this submittedAtom s =
     (if assertionFails assertEnabled this then Inl (unexpectedState this)
      else Inr (h this submittedAtom
                  (protonCount submittedAtom = protonCount (answerAtom this) \<and>
                   neutronCount submittedAtom = neutronCount (answerAtom this) \<and>
                   ((s = ''neutral'' \<and> charge (answerAtom this) = 0) \<or>
                    (s = ''ion'' \<and> charge (answerAtom this) \<noteq> 0)))
                  (Some \<lparr>correctCharge = chargeClass (answerAtom this), submittedCharge = s\<rparr>)))"
  by (simp add: checkAnswer_def assertionFails_def unexpectedState_def chargeClass_def Let_def)

lemma NumberAtom_eta:
  "\<lparr>protonCount = protonCount (a::NumberAtom), neutronCount = neutronCount a,
    electronCount = electronCount a\<rparr> = a"
  by (cases a) simp

lemma ToElementChallenge_fields:
  "answerAtom (ToElementChallenge a t) = a"
  "challengeStateProperty (ToElementChallenge a t) = PRESENTING_CHALLENGE"
  "attemptsMade (ToElementChallenge a t) = 0"
  by (simp_all add: ToElementChallenge_def new_BAAGameChallenge_def)

subsection \<open>The to-element answer check\<close>

text \<open>
  C1. For every to-element challenge and every submitted atom and declared
  classification, \<open>checkAnswer\<close> either stops at its state assertion (assertions enabled
  and the challenge not in PRESENTING\_CHALLENGE) or hands \<open>handleEvaluatedAnswer\<close> a
  verdict that is true iff the proton counts are equal, the neutron counts are equal, and
  the declared classification matches the sign of the answer's charge: \<open>'neutral'\<close> iff
  the charge is 0 and \<open>'ion'\<close> iff it is not.
\<close>

theorem checkAnswer_isCorrect_iff:
  "checkAnswer assertEnabled h this submittedAtom s =
     (if assertEnabled \<and> challengeStateProperty this \<noteq> PRESENTING_CHALLENGE
      then Inl (AssertionError (''Unexpected challenge state: '' @
                  BAAChallengeState_value (challengeStateProperty this)))
      else Inr (h this submittedAtom
                  (protonCount submittedAtom = protonCount (answerAtom this) \<and>
                   neutronCount submittedAtom = neutronCount (answerAtom this) \<and>
                   (s = ''neutral'' \<longleftrightarrow> charge (answerAtom this) = 0) \<and>
                   (s = ''ion'' \<longleftrightarrow> charge (answerAtom this) \<noteq> 0))
                  (Some \<lparr>correctCharge = (if charge (answerAtom this) = 0 then ''neutral'' else ''ion''),
                         submittedCharge = s\<rparr>)))"
proof -
  have cls: "((s = ''neutral'' \<and> charge (answerAtom this) = 0) \<or>
              (s = ''ion'' \<and> charge (answerAtom this) \<noteq> 0)) =
             ((s = ''neutral'' \<longleftrightarrow> charge (answerAtom this) = 0) \<and>
              (s = ''ion'' \<longleftrightarrow> charge (answerAtom this) \<noteq> 0))"
    by auto
  show ?thesis
    unfolding checkAnswer_def Let_def cls by simp
qed

text \<open>An oxide ion, eight protons and ten electrons, found and declared an ion.\<close>

theorem checkAnswer_isCorrect_iff_witness:
  "checkAnswer True reportEvaluation
     (ToElementChallenge \<lparr>protonCount = 8, neutronCount = 8, electronCount = 10\<rparr> ''counts-to-element'')
     \<lparr>protonCount = 8, neutronCount = 8, electronCount = 0\<rparr> ''ion'' =
   Inr \<lparr>evaluatedAtom = \<lparr>protonCount = 8, neutronCount = 8, electronCount = 0\<rparr>,
        isCorrect = True,
        detail = Some \<lparr>correctCharge = ''ion'', submittedCharge = ''ion''\<rparr>\<rparr>"
  using checkAnswer_isCorrect_iff
          [of True reportEvaluation
              "ToElementChallenge \<lparr>protonCount = 8, neutronCount = 8, electronCount = 10\<rparr> ''counts-to-element''"
              "\<lparr>protonCount = 8, neutronCount = 8, electronCount = 0\<rparr>" "''ion''"]
  by (simp add: ToElementChallenge_fields charge_def reportEvaluation_def)

text \<open>
  C2, as amended. When the submitted proton and neutron counts match the answer and the
  declared classification, \<open>'neutral'\<close> or \<open>'ion'\<close>, is not the one that the sign of the
  answer's charge calls for, the check reports the submitted and the correct
  classification as detail and the verdict is false; the same atom submitted with the
  matching classification gets the verdict true. So the classification does decide the
  pass/fail boolean.
\<close>

theorem checkAnswer_charge_mismatch_fails:
  assumes "protonCount submittedAtom = protonCount (answerAtom this)"
    and "neutronCount submittedAtom = neutronCount (answerAtom this)"
    and "s = ''neutral'' \<or> s = ''ion''"
    and "s \<noteq> chargeClass (answerAtom this)"
  shows "checkAnswer assertEnabled h this submittedAtom s =
           (if assertionFails assertEnabled this then Inl (unexpectedState this)
            else Inr (h this submittedAtom False
                        (Some \<lparr>correctCharge = chargeClass (answerAtom this), submittedCharge = s\<rparr>))) \<and>
         checkAnswer assertEnabled h this submittedAtom (chargeClass (answerAtom this)) =
           (if assertionFails assertEnabled this then Inl (unexpectedState this)
            else Inr (h this submittedAtom True
                        (Some \<lparr>correctCharge = chargeClass (answerAtom this),
                               submittedCharge = chargeClass (answerAtom this)\<rparr>)))"
  using assms by (auto simp add: checkAnswer_cases chargeClass_def)

theorem checkAnswer_charge_mismatch_fails_witness:
  "checkAnswer True reportEvaluation
     (ToElementChallenge \<lparr>protonCount = 9, neutronCount = 10, electronCount = 10\<rparr> ''counts-to-element'')
     \<lparr>protonCount = 9, neutronCount = 10, electronCount = 0\<rparr> ''neutral'' =
   Inr \<lparr>evaluatedAtom = \<lparr>protonCount = 9, neutronCount = 10, electronCount = 0\<rparr>,
        isCorrect = False,
        detail = Some \<lparr>correctCharge = ''ion'', submittedCharge = ''neutral''\<rparr>\<rparr> \<and>
   checkAnswer True reportEvaluation
     (ToElementChallenge \<lparr>protonCount = 9, neutronCount = 10, electronCount = 10\<rparr> ''counts-to-element'')
     \<lparr>protonCount = 9, neutronCount = 10, electronCount = 0\<rparr> ''ion'' =
   Inr \<lparr>evaluatedAtom = \<lparr>protonCount = 9, neutronCount = 10, electronCount = 0\<rparr>,
        isCorrect = True,
        detail = Some \<lparr>correctCharge = ''ion'', submittedCharge = ''ion''\<rparr>\<rparr>"
  using checkAnswer_charge_mismatch_fails
          [of "\<lparr>protonCount = 9, neutronCount = 10, electronCount = 0\<rparr>"
              "ToElementChallenge \<lparr>protonCount = 9, neutronCount = 10, electronCount = 10\<rparr> ''counts-to-element''"
              "''neutral''" True reportEvaluation]
  by (simp add: ToElementChallenge_fields charge_def chargeClass_def assertionFails_def
        reportEvaluation_def)

text \<open>
  The claim as the spec words it fails on a lithium ion of charge +2: with the counts
  right, declaring \<open>'neutral'\<close> gives the verdict false and declaring \<open>'ion'\<close> gives true.
\<close>

theorem checkAnswer_charge_mismatch_counterexample:
  "map_sum id isCorrect
     (checkAnswer True reportEvaluation
        (ToElementChallenge \<lparr>protonCount = 3, neutronCount = 4, electronCount = 1\<rparr> ''schematic-to-element'')
        \<lparr>protonCount = 3, neutronCount = 4, electronCount = 0\<rparr> ''neutral'') = Inr False \<and>
   map_sum id isCorrect
     (checkAnswer True reportEvaluation
        (ToElementChallenge \<lparr>protonCount = 3, neutronCount = 4, electronCount = 1\<rparr> ''schematic-to-element'')
        \<lparr>protonCount = 3, neutronCount = 4, electronCount = 0\<rparr> ''ion'') = Inr True"
  by (simp add: checkAnswer_def ToElementChallenge_def new_BAAGameChallenge_def charge_def
        reportEvaluation_def)

text \<open>
  C3. For a to-element challenge whose answer atom has charge +2, a submission with the
  answer's proton and neutron counts that declares \<open>'neutral'\<close> is evaluated as
  incorrect, and the detail reports \<open>correctCharge = 'ion'\<close> and
  \<open>submittedCharge = 'neutral'\<close>; the only other outcome is the state assertion.
\<close>

theorem checkAnswer_ion_declared_neutral:
  assumes "charge (answerAtom this) = 2"
    and "protonCount submittedAtom = protonCount (answerAtom this)"
    and "neutronCount submittedAtom = neutronCount (answerAtom this)"
  shows "checkAnswer assertEnabled h this submittedAtom ''neutral'' =
           (if assertionFails assertEnabled this then Inl (unexpectedState this)
            else Inr (h this submittedAtom False
                        (Some \<lparr>correctCharge = ''ion'', submittedCharge = ''neutral''\<rparr>)))"
  using assms by (simp add: checkAnswer_cases chargeClass_def)

theorem checkAnswer_ion_declared_neutral_witness:
  "checkAnswer True reportEvaluation
     (ToElementChallenge \<lparr>protonCount = 5, neutronCount = 6, electronCount = 3\<rparr> ''counts-to-element'')
     \<lparr>protonCount = 5, neutronCount = 6, electronCount = 0\<rparr> ''neutral'' =
   Inr \<lparr>evaluatedAtom = \<lparr>protonCount = 5, neutronCount = 6, electronCount = 0\<rparr>,
        isCorrect = False,
        detail = Some \<lparr>correctCharge = ''ion'', submittedCharge = ''neutral''\<rparr>\<rparr>"
  using checkAnswer_ion_declared_neutral
          [of "ToElementChallenge \<lparr>protonCount = 5, neutronCount = 6, electronCount = 3\<rparr> ''counts-to-element''"
              "\<lparr>protonCount = 5, neutronCount = 6, electronCount = 0\<rparr>" True reportEvaluation]
  by (simp add: ToElementChallenge_fields charge_def assertionFails_def reportEvaluation_def)

subsection \<open>Symbol entry\<close>

text \<open>
  C4. For every symbol-entry challenge, the view's \<open>checkAnswer\<close> turns the entered
  proton count \<open>p\<close>, mass number \<open>m\<close> and charge \<open>c\<close> into the atom with \<open>p\<close> protons,
  \<open>m - p\<close> neutrons and \<open>p - c\<close> electrons, and the challenge's check of that atom gives
  the verdict true iff all three counts equal the answer atom's.
\<close>

theorem CountsToSymbolChallengeView_checkAnswer_converts:
  "CountsToSymbolChallengeView_checkAnswer (BAAGameChallenge_checkAnswer h) this =
     h (challenge this)
       \<lparr>protonCount = protonCountProperty (interactiveSymbolNode this),
        neutronCount = massNumberProperty (interactiveSymbolNode this) -
                       protonCountProperty (interactiveSymbolNode this),
        electronCount = protonCountProperty (interactiveSymbolNode this) -
                        chargeProperty (interactiveSymbolNode this)\<rparr>
       (protonCountProperty (interactiveSymbolNode this) = protonCount (answerAtom (challenge this)) \<and>
        massNumberProperty (interactiveSymbolNode this) - protonCountProperty (interactiveSymbolNode this)
          = neutronCount (answerAtom (challenge this)) \<and>
        protonCountProperty (interactiveSymbolNode this) - chargeProperty (interactiveSymbolNode this)
          = electronCount (answerAtom (challenge this)))
       None"
  by (auto simp add: CountsToSymbolChallengeView_checkAnswer_def BAAGameChallenge_checkAnswer_def
        NumberAtom_equals_def Let_def intro!: arg_cong [where f = "\<lambda>b. h _ _ b None"])

text \<open>Sodium-23 with charge +1, entered as proton count 11, mass number 23, charge 1.\<close>

theorem CountsToSymbolChallengeView_checkAnswer_converts_witness:
  "CountsToSymbolChallengeView_checkAnswer (BAAGameChallenge_checkAnswer reportEvaluation)
     \<lparr>interactiveSymbolNode = \<lparr>protonCountProperty = 11, massNumberProperty = 23, chargeProperty = 1\<rparr>,
      challenge = new_BAAGameChallenge \<lparr>protonCount = 11, neutronCount = 12, electronCount = 10\<rparr>
                    ''counts-to-symbol-all''\<rparr> =
   \<lparr>evaluatedAtom = \<lparr>protonCount = 11, neutronCount = 12, electronCount = 10\<rparr>,
    isCorrect = True, detail = None\<rparr>"
  using CountsToSymbolChallengeView_checkAnswer_converts
          [of reportEvaluation
              "\<lparr>interactiveSymbolNode = \<lparr>protonCountProperty = 11, massNumberProperty = 23, chargeProperty = 1\<rparr>,
                challenge = new_BAAGameChallenge \<lparr>protonCount = 11, neutronCount = 12, electronCount = 10\<rparr>
                    ''counts-to-symbol-all''\<rparr>"]
  by (simp add: new_BAAGameChallenge_def reportEvaluation_def)

text \<open>
  C5. Round trip. Showing the correct answer in a view and then checking what the view
  holds is evaluated as correct: for the symbol types the view is filled with the
  answer's proton count, mass number and charge; for the to-element types with the answer
  atom and the classification \<open>'neutral'\<close> when its charge is 0 and \<open>'ion'\<close> otherwise
  (here the only other outcome is the state assertion); for the types that submit an atom
  directly the answer atom itself is submitted.
\<close>

theorem displayCorrectAnswer_checkAnswer_correct:
  "CountsToSymbolChallengeView_checkAnswer (BAAGameChallenge_checkAnswer h)
     (CountsToSymbolChallengeView_displayCorrectAnswer symbolView) =
     h (challenge symbolView) (answerAtom (challenge symbolView)) True None \<and>
   ToElementProblemView_checkAnswer (checkAnswer assertEnabled h)
     (ToElementProblemView_displayCorrectAnswer elementView) =
     (if assertionFails assertEnabled (problem elementView)
      then Inl (unexpectedState (problem elementView))
      else Inr (h (problem elementView) (answerAtom (problem elementView)) True
                  (Some \<lparr>correctCharge = chargeClass (answerAtom (problem elementView)),
                         submittedCharge = chargeClass (answerAtom (problem elementView))\<rparr>))) \<and>
   BAAGameChallenge_checkAnswer h this (answerAtom this) = h this (answerAtom this) True None"
proof -
  have symbol: "CountsToSymbolChallengeView_checkAnswer (BAAGameChallenge_checkAnswer h)
     (CountsToSymbolChallengeView_displayCorrectAnswer symbolView) =
     h (challenge symbolView) (answerAtom (challenge symbolView)) True None"
    by (simp add: CountsToSymbolChallengeView_checkAnswer_def BAAGameChallenge_checkAnswer_def
        CountsToSymbolChallengeView_displayCorrectAnswer_def
        NumberAtom_equals_def Let_def massNumber_def charge_def NumberAtom_eta)
  have shown: "periodicTableAtom (ToElementProblemView_displayCorrectAnswer elementView) =
      answerAtom (problem elementView)"
    by (cases "periodicTableAtom elementView")
      (simp add: ToElementProblemView_displayCorrectAnswer_def NumberAtom_eta)
  have element: "ToElementProblemView_checkAnswer (checkAnswer assertEnabled h)
     (ToElementProblemView_displayCorrectAnswer elementView) =
     (if assertionFails assertEnabled (problem elementView)
      then Inl (unexpectedState (problem elementView))
      else Inr (h (problem elementView) (answerAtom (problem elementView)) True
                  (Some \<lparr>correctCharge = chargeClass (answerAtom (problem elementView)),
                         submittedCharge = chargeClass (answerAtom (problem elementView))\<rparr>)))"
    unfolding ToElementProblemView_checkAnswer_def shown checkAnswer_cases
    by (simp add: ToElementProblemView_displayCorrectAnswer_def chargeClass_def)
  have counts: "BAAGameChallenge_checkAnswer h this (answerAtom this) = h this (answerAtom this) True None"
    by (simp add: BAAGameChallenge_checkAnswer_def NumberAtom_equals_def)
  from symbol element counts show ?thesis by simp
qed

text \<open>
  A magnesium ion of charge +2, shown and checked in a symbol view whose fields held
  zeros and in a to-element view that had nothing selected.
\<close>

theorem displayCorrectAnswer_checkAnswer_correct_witness:
  "CountsToSymbolChallengeView_checkAnswer (BAAGameChallenge_checkAnswer reportEvaluation)
     (CountsToSymbolChallengeView_displayCorrectAnswer
        \<lparr>interactiveSymbolNode = \<lparr>protonCountProperty = 0, massNumberProperty = 0, chargeProperty = 0\<rparr>,
         challenge = new_BAAGameChallenge \<lparr>protonCount = 12, neutronCount = 12, electronCount = 10\<rparr>
                       ''schematic-to-symbol-all''\<rparr>) =
     \<lparr>evaluatedAtom = \<lparr>protonCount = 12, neutronCount = 12, electronCount = 10\<rparr>,
      isCorrect = True, detail = None\<rparr> \<and>
   ToElementProblemView_checkAnswer (checkAnswer True reportEvaluation)
     (ToElementProblemView_displayCorrectAnswer
        \<lparr>periodicTableAtom = \<lparr>protonCount = 0, neutronCount = 0, electronCount = 0\<rparr>,
         neutralOrIon = ''noSelection'',
         problem = ToElementChallenge \<lparr>protonCount = 12, neutronCount = 12, electronCount = 10\<rparr>
                     ''counts-to-element''\<rparr>) =
     Inr \<lparr>evaluatedAtom = \<lparr>protonCount = 12, neutronCount = 12, electronCount = 10\<rparr>,
          isCorrect = True,
          detail = Some \<lparr>correctCharge = ''ion'', submittedCharge = ''ion''\<rparr>\<rparr>"
  using displayCorrectAnswer_checkAnswer_correct
          [of reportEvaluation
              "\<lparr>interactiveSymbolNode = \<lparr>protonCountProperty = 0, massNumberProperty = 0, chargeProperty = 0\<rparr>,
                challenge = new_BAAGameChallenge \<lparr>protonCount = 12, neutronCount = 12, electronCount = 10\<rparr>
                       ''schematic-to-symbol-all''\<rparr>"
              True
              "\<lparr>periodicTableAtom = \<lparr>protonCount = 0, neutronCount = 0, electronCount = 0\<rparr>,
                neutralOrIon = ''noSelection'',
                problem = ToElementChallenge \<lparr>protonCount = 12, neutronCount = 12, electronCount = 10\<rparr>
                     ''counts-to-element''\<rparr>"]
  by (simp add: new_BAAGameChallenge_def ToElementChallenge_def reportEvaluation_def
        assertionFails_def chargeClass_def charge_def)

subsection \<open>The state assertion and the challenge states\<close>

text \<open>
  C7, as amended. With assertions enabled, \<open>checkAnswer\<close> is legal in exactly one state,
  PRESENTING\_CHALLENGE: its precondition assertion fires in every other state,
  PRESENTING\_TRY\_AGAIN included, where it throws "Unexpected challenge state:
  presentingTryAgain" and evaluates nothing. With assertions disabled the call never
  fails. A correct submission made from PRESENTING\_CHALLENGE moves the challenge to
  CHALLENGE\_SOLVED\_CORRECTLY.
\<close>

theorem checkAnswer_legal_only_when_presenting:
  "(isl (checkAnswer True h this submittedAtom s) \<longleftrightarrow>
      challengeStateProperty this \<noteq> PRESENTING_CHALLENGE) \<and>
   (challengeStateProperty this = PRESENTING_TRY_AGAIN \<longrightarrow>
      checkAnswer True h this submittedAtom s =
        Inl (AssertionError ''Unexpected challenge state: presentingTryAgain'')) \<and>
   \<not> isl (checkAnswer False h this submittedAtom s) \<and>
   (challengeStateProperty this = PRESENTING_CHALLENGE \<and>
    protonCount submittedAtom = protonCount (answerAtom this) \<and>
    neutronCount submittedAtom = neutronCount (answerAtom this) \<and>
    s = chargeClass (answerAtom this) \<longrightarrow>
      map_sum id challengeStateProperty
        (checkAnswer assertEnabled handleEvaluatedAnswer this submittedAtom s) =
      Inr CHALLENGE_SOLVED_CORRECTLY)"
proof -
  have a: "isl (checkAnswer True h this submittedAtom s) \<longleftrightarrow>
      challengeStateProperty this \<noteq> PRESENTING_CHALLENGE"
    by (simp add: checkAnswer_cases assertionFails_def)
  have b: "challengeStateProperty this = PRESENTING_TRY_AGAIN \<longrightarrow>
      checkAnswer True h this submittedAtom s =
        Inl (AssertionError ''Unexpected challenge state: presentingTryAgain'')"
    by (simp add: checkAnswer_cases assertionFails_def unexpectedState_def)
  have c: "\<not> isl (checkAnswer False h this submittedAtom s)"
    by (simp add: checkAnswer_cases assertionFails_def)
  have d: "map_sum id challengeStateProperty
        (checkAnswer assertEnabled handleEvaluatedAnswer this submittedAtom s) =
      Inr CHALLENGE_SOLVED_CORRECTLY"
    if st: "challengeStateProperty this = PRESENTING_CHALLENGE"
      and p: "protonCount submittedAtom = protonCount (answerAtom this)"
      and n: "neutronCount submittedAtom = neutronCount (answerAtom this)"
      and s: "s = chargeClass (answerAtom this)"
  proof -
    have ok: "(s = ''neutral'' \<and> charge (answerAtom this) = 0) \<or>
              (s = ''ion'' \<and> charge (answerAtom this) \<noteq> 0)"
      unfolding s chargeClass_def by simp
    have nf: "\<not> assertionFails assertEnabled this"
      by (simp add: assertionFails_def st)
    show ?thesis
      unfolding checkAnswer_cases using nf p n ok
      by (simp add: handleEvaluatedAnswer_def)
  qed
  from a b c d show ?thesis by blast
qed

text \<open>
  Neon: a second, correct submission in PRESENTING\_TRY\_AGAIN is refused, a first one in
  PRESENTING\_CHALLENGE solves the challenge.
\<close>

theorem checkAnswer_legal_only_when_presenting_witness:
  "checkAnswer True handleEvaluatedAnswer
     \<lparr>answerAtom = \<lparr>protonCount = 10, neutronCount = 10, electronCount = 10\<rparr>,
      challengeType = ''schematic-to-element'',
      challengeStateProperty = PRESENTING_TRY_AGAIN, attemptsMade = 1\<rparr>
     \<lparr>protonCount = 10, neutronCount = 10, electronCount = 0\<rparr> ''neutral'' =
     Inl (AssertionError ''Unexpected challenge state: presentingTryAgain'') \<and>
   map_sum id challengeStateProperty
     (checkAnswer True handleEvaluatedAnswer
        (ToElementChallenge \<lparr>protonCount = 10, neutronCount = 10, electronCount = 10\<rparr>
           ''schematic-to-element'')
        \<lparr>protonCount = 10, neutronCount = 10, electronCount = 0\<rparr> ''neutral'') =
     Inr CHALLENGE_SOLVED_CORRECTLY"
  using checkAnswer_legal_only_when_presenting
          [of handleEvaluatedAnswer
              "\<lparr>answerAtom = \<lparr>protonCount = 10, neutronCount = 10, electronCount = 10\<rparr>,
                challengeType = ''schematic-to-element'',
                challengeStateProperty = PRESENTING_TRY_AGAIN, attemptsMade = 1\<rparr>"
              "\<lparr>protonCount = 10, neutronCount = 10, electronCount = 0\<rparr>" "''neutral''" True]
        checkAnswer_legal_only_when_presenting
          [of handleEvaluatedAnswer
              "ToElementChallenge \<lparr>protonCount = 10, neutronCount = 10, electronCount = 10\<rparr>
                 ''schematic-to-element''"
              "\<lparr>protonCount = 10, neutronCount = 10, electronCount = 0\<rparr>" "''neutral''" True]
  by (simp add: ToElementChallenge_fields chargeClass_def charge_def)

text \<open>
  The claim as the spec words it fails on a carbon challenge in PRESENTING\_TRY\_AGAIN:
  the correct answer is submitted and the assertion fires.
\<close>

theorem checkAnswer_try_again_counterexample:
  "checkAnswer True reportEvaluation
     \<lparr>answerAtom = \<lparr>protonCount = 6, neutronCount = 6, electronCount = 6\<rparr>,
      challengeType = ''counts-to-element'',
      challengeStateProperty = PRESENTING_TRY_AGAIN, attemptsMade = 1\<rparr>
     \<lparr>protonCount = 6, neutronCount = 6, electronCount = 6\<rparr> ''neutral'' =
   Inl (AssertionError ''Unexpected challenge state: presentingTryAgain'')"
  by (simp add: checkAnswer_def)

text \<open>
  C8. The challenge states are exactly five: PRESENTING\_CHALLENGE,
  CHALLENGE\_SOLVED\_CORRECTLY, PRESENTING\_TRY\_AGAIN, ATTEMPTS\_EXHAUSTED and
  DISPLAYING\_CORRECT\_ANSWER. They are pairwise different, the object literal has one
  entry for each and no other, its keys and its values are pairwise different, and a new
  challenge starts in PRESENTING\_CHALLENGE.
\<close>

theorem BAAChallengeState_exhaustive:
  "(UNIV :: BAAChallengeState set) =
     {PRESENTING_CHALLENGE, CHALLENGE_SOLVED_CORRECTLY, PRESENTING_TRY_AGAIN, ATTEMPTS_EXHAUSTED,
      DISPLAYING_CORRECT_ANSWER} \<and>
   distinct [PRESENTING_CHALLENGE, CHALLENGE_SOLVED_CORRECTLY, PRESENTING_TRY_AGAIN,
      ATTEMPTS_EXHAUSTED, DISPLAYING_CORRECT_ANSWER] \<and>
   BAAChallengeState_entries =
     map (\<lambda>st. (BAAChallengeState_key st, BAAChallengeState_value st))
       [PRESENTING_CHALLENGE, CHALLENGE_SOLVED_CORRECTLY, PRESENTING_TRY_AGAIN, ATTEMPTS_EXHAUSTED,
        DISPLAYING_CORRECT_ANSWER] \<and>
   length BAAChallengeState_entries = 5 \<and>
   distinct (map fst BAAChallengeState_entries) \<and>
   distinct (map snd BAAChallengeState_entries) \<and>
   challengeStateProperty (ToElementChallenge answer ctype) = PRESENTING_CHALLENGE"
proof -
  have "st \<in> {PRESENTING_CHALLENGE, CHALLENGE_SOLVED_CORRECTLY, PRESENTING_TRY_AGAIN,
      ATTEMPTS_EXHAUSTED, DISPLAYING_CORRECT_ANSWER}" for st
    by (cases st) simp_all
  then have u: "(UNIV :: BAAChallengeState set) =
     {PRESENTING_CHALLENGE, CHALLENGE_SOLVED_CORRECTLY, PRESENTING_TRY_AGAIN, ATTEMPTS_EXHAUSTED,
      DISPLAYING_CORRECT_ANSWER}" by blast
  show ?thesis
    unfolding u [symmetric]
    by (simp add: BAAChallengeState_entries_def ToElementChallenge_def new_BAAGameChallenge_def)
qed

subsection \<open>Level completion\<close>

text \<open>
  C6, as amended. When a level is completed and the branch runs to its end, the
  celebratory outcome (reward node on the screen and the perfect-score sound) is produced
  iff the final score equals \<open>CHALLENGES_PER_LEVEL \<times> POINTS_FOR_FIRST_ATTEMPT\<close> or the
  \<open>reward\<close> query parameter is set; with the parameter unset, iff the score equals that
  maximum. Every other completed level gets no reward node, and the imperfect-score sound
  when the score is positive and no sound when it is not.
\<close>

theorem LEVEL_COMPLETED_perfect_iff:
  assumes "provideFeedbackProperty gameModel \<longrightarrow>
           levelProperty gameModel < length (bestTimes gameModel)"
  shows "\<exists>r. LEVEL_COMPLETED c reward gameModel self = Inr r \<and>
           (perfectScoreOutcome r \<longleftrightarrow>
              scoreProperty gameModel = CHALLENGES_PER_LEVEL c * POINTS_FOR_FIRST_ATTEMPT c \<or> reward) \<and>
           (\<not> perfectScoreOutcome r \<longrightarrow>
              BAARewardNode \<notin> set (rootNode (fst r)) \<and>
              snd r = (if scoreProperty gameModel > 0 then [gameOverImperfectScore] else []))"
  using assms
  by (auto simp add: LEVEL_COMPLETED_def perfectScoreOutcome_def MAX_POINTS_PER_GAME_LEVEL_def Let_def)

text \<open>
  Five challenges worth two points each, no query parameter: a score of 10 is celebrated,
  a score of 7 gets the imperfect-score sound.
\<close>

theorem LEVEL_COMPLETED_perfect_iff_witness:
  "map_sum id perfectScoreOutcome
     (LEVEL_COMPLETED \<lparr>CHALLENGES_PER_LEVEL = 5, POINTS_FOR_FIRST_ATTEMPT = 2\<rparr> False
        \<lparr>scoreProperty = 10, provideFeedbackProperty = True, levelProperty = 1,
         timerEnabledProperty = True, elapsedTimeProperty = (42::nat), bestTimes = [0, 50, 0, 0],
         newBestTime = True\<rparr>
        \<lparr>rootNode = [StartGameLevelNode], rewardNode = None, levelCompletedNode = None\<rparr>) = Inr True \<and>
   map_sum id snd
     (LEVEL_COMPLETED \<lparr>CHALLENGES_PER_LEVEL = 5, POINTS_FOR_FIRST_ATTEMPT = 2\<rparr> False
        \<lparr>scoreProperty = 7, provideFeedbackProperty = True, levelProperty = 1,
         timerEnabledProperty = True, elapsedTimeProperty = (42::nat), bestTimes = [0, 50, 0, 0],
         newBestTime = False\<rparr>
        \<lparr>rootNode = [StartGameLevelNode], rewardNode = None, levelCompletedNode = None\<rparr>) =
     Inr [gameOverImperfectScore]"
  using LEVEL_COMPLETED_perfect_iff
          [of "\<lparr>scoreProperty = 10, provideFeedbackProperty = True, levelProperty = 1,
                timerEnabledProperty = True, elapsedTimeProperty = (42::nat), bestTimes = [0, 50, 0, 0],
                newBestTime = True\<rparr>"
              "\<lparr>CHALLENGES_PER_LEVEL = 5, POINTS_FOR_FIRST_ATTEMPT = 2\<rparr>" False
              "\<lparr>rootNode = [StartGameLevelNode], rewardNode = None, levelCompletedNode = None\<rparr>"]
        LEVEL_COMPLETED_perfect_iff
          [of "\<lparr>scoreProperty = 7, provideFeedbackProperty = True, levelProperty = 1,
                timerEnabledProperty = True, elapsedTimeProperty = (42::nat), bestTimes = [0, 50, 0, 0],
                newBestTime = False\<rparr>"
              "\<lparr>CHALLENGES_PER_LEVEL = 5, POINTS_FOR_FIRST_ATTEMPT = 2\<rparr>" False
              "\<lparr>rootNode = [StartGameLevelNode], rewardNode = None, levelCompletedNode = None\<rparr>"]
  by auto

text \<open>
  The claim as the spec words it fails when the \<open>reward\<close> query parameter is set: a score
  of 3 out of 10 is celebrated.
\<close>

theorem LEVEL_COMPLETED_reward_counterexample:
  "map_sum id perfectScoreOutcome
     (LEVEL_COMPLETED \<lparr>CHALLENGES_PER_LEVEL = 5, POINTS_FOR_FIRST_ATTEMPT = 2\<rparr> True
        \<lparr>scoreProperty = 3, provideFeedbackProperty = True, levelProperty = 0,
         timerEnabledProperty = False, elapsedTimeProperty = (0::nat), bestTimes = [0, 0, 0, 0],
         newBestTime = False\<rparr>
        \<lparr>rootNode = [], rewardNode = None, levelCompletedNode = None\<rparr>) = Inr True \<and>
   (3::int) \<noteq> CHALLENGES_PER_LEVEL \<lparr>CHALLENGES_PER_LEVEL = 5, POINTS_FOR_FIRST_ATTEMPT = 2\<rparr> *
              POINTS_FOR_FIRST_ATTEMPT \<lparr>CHALLENGES_PER_LEVEL = 5, POINTS_FOR_FIRST_ATTEMPT = 2\<rparr>"
  by (simp add: LEVEL_COMPLETED_def perfectScoreOutcome_def MAX_POINTS_PER_GAME_LEVEL_def Let_def)

subsection \<open>Setting the atom's configuration\<close>

lemma bucketOf_bucket_update:
  "bucketOf k' (bucket_update k b bs) = (if k' = k then b else bucketOf k' bs)"
  by (cases k; cases k') simp_all

lemma moveParticlesToAtom_up_done:
  "\<not> cur < tgt \<Longrightarrow> moveParticlesToAtom_up closest k cur tgt self = Inr (cur, self)"
  by (simp add: moveParticlesToAtom_up.simps)

text \<open>Once a collection is empty, further rounds of the second loop change nothing.\<close>

lemma moveParticlesToAtom_down_empty:
  "particlesInAtom k (particleAtom self) = [] \<Longrightarrow> moveParticlesToAtom_down k cur tgt self = Inr self"
proof (induction k cur tgt self rule: moveParticlesToAtom_down.induct)
  case (1 k cur tgt self)
  have m: "moveParticlesFromAtomToBucket k self = Inr self"
    using "1.prems" by (simp add: moveParticlesFromAtomToBucket_def)
  show ?case
  proof (cases "tgt < cur")
    case True
    with "1.IH" [OF True m] "1.prems" m show ?thesis
      by (subst moveParticlesToAtom_down.simps) simp
  next
    case False
    then show ?thesis
      by (subst moveParticlesToAtom_down.simps) simp
  qed
qed

text \<open>One call of the helper takes every proton out of the atom.\<close>

lemma forEach_protons_empties:
  "protons (particleAtom self) = ps \<Longrightarrow>
   \<exists>self'. forEach_particlesToRemove proton ps self = Inr self' \<and>
     protons (particleAtom self') = [] \<and>
     protonBucket (buckets self') = protonBucket (buckets self) @ ps \<and>
     neutronBucket (buckets self') = neutronBucket (buckets self) \<and>
     electronBucket (buckets self') = electronBucket (buckets self)"
proof (induction ps arbitrary: self)
  case Nil
  then show ?case by simp
next
  case (Cons p rest)
  let ?atom = "(particleAtom self)\<lparr>protons := rest\<rparr>"
  let ?self1 = "self\<lparr>particleAtom := ?atom,
                  buckets := bucket_update proton
                    (SphereBucket_addParticleFirstOpen (bucketOf proton (buckets self)) p)
                    (buckets self)\<rparr>"
  have r: "ParticleAtom_removeParticle (particleAtom self) p = Inr ?atom"
    using Cons.prems by (simp add: ParticleAtom_removeParticle_def)
  have "protons (particleAtom ?self1) = rest" by simp
  from Cons.IH [OF this] obtain self' where
    s: "forEach_particlesToRemove proton rest ?self1 = Inr self'"
      "protons (particleAtom self') = []"
      "protonBucket (buckets self') = protonBucket (buckets ?self1) @ rest"
      "neutronBucket (buckets self') = neutronBucket (buckets ?self1)"
      "electronBucket (buckets self') = electronBucket (buckets ?self1)"
    by blast
  have "forEach_particlesToRemove proton (p # rest) self = Inr self'"
    using r s(1) by simp
  with s show ?case
    by (simp add: SphereBucket_addParticleFirstOpen_def)
qed

lemma moveParticlesToAtom_protons_decrease:
  assumes "tgt < cur"
  shows "\<exists>self'. moveParticlesToAtom closest cur tgt proton self = Inr self' \<and>
     protons (particleAtom self') = [] \<and>
     protonBucket (buckets self') = protonBucket (buckets self) @ protons (particleAtom self) \<and>
     neutronBucket (buckets self') = neutronBucket (buckets self) \<and>
     electronBucket (buckets self') = electronBucket (buckets self)"
proof -
  from forEach_protons_empties [OF refl, of self] obtain self1 where
    s: "forEach_particlesToRemove proton (protons (particleAtom self)) self = Inr self1"
      "protons (particleAtom self1) = []"
      "protonBucket (buckets self1) = protonBucket (buckets self) @ protons (particleAtom self)"
      "neutronBucket (buckets self1) = neutronBucket (buckets self)"
      "electronBucket (buckets self1) = electronBucket (buckets self)"
    by blast
  have m: "moveParticlesFromAtomToBucket proton self = Inr self1"
    using s(1) by (simp add: moveParticlesFromAtomToBucket_def)
  have rest: "moveParticlesToAtom_down proton (cur - 1) tgt self1 = Inr self1"
    using s(2) by (simp add: moveParticlesToAtom_down_empty)
  have "moveParticlesToAtom_down proton cur tgt self = Inr self1"
    using assms m rest by (subst moveParticlesToAtom_down.simps) simp
  then have "moveParticlesToAtom closest cur tgt proton self = Inr self1"
    using assms by (simp add: moveParticlesToAtom_def moveParticlesToAtom_up_done)
  with s show ?thesis by blast
qed

text \<open>
  The calls for the neutrons and the electrons leave an atom without protons without
  protons, and touch no bucket but their own.
\<close>

lemma removeParticle_no_protons:
  "ParticleAtom_removeParticle atom p = Inr atom' \<Longrightarrow> protons atom = [] \<Longrightarrow> protons atom' = []"
  by (auto simp add: ParticleAtom_removeParticle_def split: if_splits)

lemma forEach_no_protons:
  "forEach_particlesToRemove k ps self = Inr self' \<Longrightarrow> protons (particleAtom self) = [] \<Longrightarrow>
   protons (particleAtom self') = [] \<and>
   (\<forall>k'. k' \<noteq> k \<longrightarrow> bucketOf k' (buckets self') = bucketOf k' (buckets self))"
proof (induction ps arbitrary: self)
  case Nil
  then show ?case by simp
next
  case (Cons p rest)
  from Cons.prems(1) obtain atom where
    r: "ParticleAtom_removeParticle (particleAtom self) p = Inr atom"
    by (auto split: sum.splits)
  let ?self1 = "self\<lparr>particleAtom := atom,
                  buckets := bucket_update k
                    (SphereBucket_addParticleFirstOpen (bucketOf k (buckets self)) p)
                    (buckets self)\<rparr>"
  have c: "forEach_particlesToRemove k rest ?self1 = Inr self'"
    using Cons.prems(1) r by simp
  have e: "protons (particleAtom ?self1) = []"
    using removeParticle_no_protons [OF r] Cons.prems(2) by simp
  from Cons.IH [OF c e] show ?case
    by (simp add: bucketOf_bucket_update)
qed

lemma down_no_protons:
  "moveParticlesToAtom_down k cur tgt self = Inr self' \<Longrightarrow> protons (particleAtom self) = [] \<Longrightarrow>
   protons (particleAtom self') = [] \<and>
   (\<forall>k'. k' \<noteq> k \<longrightarrow> bucketOf k' (buckets self') = bucketOf k' (buckets self))"
proof (induction k cur tgt self rule: moveParticlesToAtom_down.induct)
  case (1 k cur tgt self)
  show ?case
  proof (cases "tgt < cur")
    case True
    from "1.prems"(1) True obtain self1 where
      m: "moveParticlesFromAtomToBucket k self = Inr self1"
      and d: "moveParticlesToAtom_down k (cur - 1) tgt self1 = Inr self'"
      by (subst (asm) moveParticlesToAtom_down.simps) (auto split: sum.splits)
    from m have f: "forEach_particlesToRemove k (particlesInAtom k (particleAtom self)) self = Inr self1"
      by (simp add: moveParticlesFromAtomToBucket_def)
    note a = forEach_no_protons [OF f "1.prems"(2)]
    from "1.IH" [OF True m d] a show ?thesis by simp
  next
    case False
    with "1.prems" show ?thesis
      by (subst (asm) moveParticlesToAtom_down.simps) simp
  qed
qed

lemma addParticle_no_protons:
  "particleType p \<noteq> proton \<Longrightarrow> protons (ParticleAtom_addParticle atom p) = protons atom"
  by (simp add: ParticleAtom_addParticle_def split: ParticleType.splits)

lemma up_no_protons:
  "moveParticlesToAtom_up closest k cur tgt self = Inr (c, self') \<Longrightarrow>
   \<forall>b. b \<noteq> [] \<longrightarrow> closest b \<in> set b \<Longrightarrow> k \<noteq> proton \<Longrightarrow>
   \<forall>p \<in> set (bucketOf k (buckets self)). particleType p = k \<Longrightarrow>
   protons (particleAtom self) = [] \<Longrightarrow>
   protons (particleAtom self') = [] \<and>
   (\<forall>k'. k' \<noteq> k \<longrightarrow> bucketOf k' (buckets self') = bucketOf k' (buckets self))"
proof (induction closest k cur tgt self rule: moveParticlesToAtom_up.induct)
  case (1 closest k cur tgt self)
  show ?case
  proof (cases "cur < tgt")
    case True
    let ?b = "bucketOf k (buckets self)"
    from "1.prems"(1) True have ne: "?b \<noteq> []"
      by (subst (asm) moveParticlesToAtom_up.simps)
        (auto simp add: SphereBucket_extractClosestParticle_def split: if_splits)
    let ?p = "closest ?b"
    let ?b' = "remove1 ?p ?b"
    let ?self1 = "userControlledListener k (self\<lparr>buckets := bucket_update k ?b' (buckets self)\<rparr>) ?p"
    have ex: "SphereBucket_extractClosestParticle closest ?b = Some (?p, ?b')"
      using ne by (simp add: SphereBucket_extractClosestParticle_def)
    have rec: "moveParticlesToAtom_up closest k (cur + 1) tgt ?self1 = Inr (c, self')"
      using "1.prems"(1) True ex by (subst (asm) moveParticlesToAtom_up.simps) simp
    have pin: "?p \<in> set ?b" using "1.prems"(2) ne by blast
    then have pt: "particleType ?p \<noteq> proton" using "1.prems"(3,4) by auto
    have b1: "bucketOf k (buckets ?self1) = ?b'"
      by (simp add: userControlledListener_def bucketOf_bucket_update)
    have typed: "\<forall>p \<in> set (bucketOf k (buckets ?self1)). particleType p = k"
      unfolding b1 using "1.prems"(4) by (auto dest: notin_set_remove1)
    have np: "protons (particleAtom ?self1) = []"
      using "1.prems"(5) pt by (simp add: userControlledListener_def addParticle_no_protons)
    have other: "\<forall>k'. k' \<noteq> k \<longrightarrow> bucketOf k' (buckets ?self1) = bucketOf k' (buckets self)"
      by (simp add: userControlledListener_def bucketOf_bucket_update)
    from "1.IH" [OF True ex refl rec "1.prems"(2) "1.prems"(3) typed np] other
    show ?thesis by simp
  next
    case False
    with "1.prems" show ?thesis
      by (subst (asm) moveParticlesToAtom_up.simps) simp
  qed
qed

lemma moveParticlesToAtom_no_protons:
  assumes "moveParticlesToAtom closest cur tgt k self = Inr self'"
    and "\<forall>b. b \<noteq> [] \<longrightarrow> closest b \<in> set b" and "k \<noteq> proton"
    and "\<forall>p \<in> set (bucketOf k (buckets self)). particleType p = k"
    and "protons (particleAtom self) = []"
  shows "protons (particleAtom self') = [] \<and>
   (\<forall>k'. k' \<noteq> k \<longrightarrow> bucketOf k' (buckets self') = bucketOf k' (buckets self))"
proof -
  from assms(1) obtain c self1 where
    u: "moveParticlesToAtom_up closest k cur tgt self = Inr (c, self1)"
    and d: "moveParticlesToAtom_down k c tgt self1 = Inr self'"
    by (auto simp add: moveParticlesToAtom_def split: sum.splits)
  note a = up_no_protons [OF u assms(2) assms(3) assms(4) assms(5)]
  from a have "protons (particleAtom self1) = []" by simp
  from down_no_protons [OF d this] a show ?thesis by simp
qed

lemma modelWithTwoProtons_set_one:
  "setAtomConfiguration closest modelWithTwoProtons
     \<lparr>protonCount = 1, neutronCount = 0, electronCount = 0\<rparr> =
   Inr (modelWithTwoProtons
         \<lparr>particleAtom := \<lparr>protons = [], neutrons = [], electrons = []\<rparr>,
          buckets := (buckets modelWithTwoProtons)
            \<lparr>protonBucket := protonBucket (buckets modelWithTwoProtons) @
                              protons (particleAtom modelWithTwoProtons)\<rparr>\<rparr>)"
  by (simp add: setAtomConfiguration_def modelWithTwoProtons_def moveParticlesToAtom_def
      moveParticlesToAtom_up.simps moveParticlesToAtom_down.simps moveParticlesFromAtomToBucket_def
      ParticleAtom_removeParticle_def SphereBucket_addParticleFirstOpen_def)

text \<open>
  The other paths of the operation on concrete states: filling an empty atom reaches the
  target's counts, emptying the atom reaches them, and asking for more protons than exist
  ends in the TypeError of the empty bucket.
\<close>

lemma setAtomConfiguration_increase_example:
  "map_sum id (\<lambda>m. (length (protons (particleAtom m)), length (neutrons (particleAtom m)),
                      length (electrons (particleAtom m))))
     (setAtomConfiguration hd new_BuildAnAtomModel
        \<lparr>protonCount = 3, neutronCount = 4, electronCount = 2\<rparr>) = Inr (3, 4, 2)"
  by code_simp

lemma setAtomConfiguration_clear_example:
  "map_sum id (length \<circ> protons \<circ> particleAtom)
     (setAtomConfiguration hd modelWithTwoProtons
        \<lparr>protonCount = 0, neutronCount = 0, electronCount = 0\<rparr>) = Inr 0"
  by code_simp

lemma setAtomConfiguration_empty_bucket_example:
  "setAtomConfiguration hd new_BuildAnAtomModel
     \<lparr>protonCount = 11, neutronCount = 0, electronCount = 0\<rparr> = Inl TypeError"
  by code_simp

text \<open>
  C9. What the code does where the claim asks for a decrease: whenever the target has
  fewer protons than the atom holds, and the neutron and electron buckets hold particles
  of their own type, a call of \<open>setAtomConfiguration\<close> that returns leaves the atom with
  no proton at all, whatever the target's proton count is. The atom's proton count then
  equals the target's only when the target has no protons.
\<close>

theorem setAtomConfiguration_decrease_removes_all_protons:
  assumes dec: "protonCount numberAtom < int (length (protons (particleAtom self)))"
    and nb: "\<forall>p \<in> set (neutronBucket (buckets self)). particleType p = neutron"
    and eb: "\<forall>p \<in> set (electronBucket (buckets self)). particleType p = electron"
    and cl: "\<forall>b. b \<noteq> [] \<longrightarrow> closest b \<in> set b"
    and res: "setAtomConfiguration closest self numberAtom = Inr self'"
  shows "protons (particleAtom self') = []"
proof -
  from moveParticlesToAtom_protons_decrease [OF dec, of closest self] obtain self1 where
    p1: "moveParticlesToAtom closest (int (length (protons (particleAtom self))))
           (protonCount numberAtom) proton self = Inr self1"
    and e1: "protons (particleAtom self1) = []"
    and n1: "neutronBucket (buckets self1) = neutronBucket (buckets self)"
    and el1: "electronBucket (buckets self1) = electronBucket (buckets self)"
    by blast
  from res p1 obtain self2 where
    p2: "moveParticlesToAtom closest (int (length (neutrons (particleAtom self1))))
           (neutronCount numberAtom) neutron self1 = Inr self2"
    and p3: "moveParticlesToAtom closest (int (length (electrons (particleAtom self2))))
           (electronCount numberAtom) electron self2 = Inr self'"
    by (auto simp add: setAtomConfiguration_def split: sum.splits)
  have t1: "\<forall>p \<in> set (bucketOf neutron (buckets self1)). particleType p = neutron"
    using nb n1 by simp
  note a2 = moveParticlesToAtom_no_protons [OF p2 cl _ t1 e1]
  have e2: "protons (particleAtom self2) = []" using a2 by simp
  have "bucketOf electron (buckets self2) = bucketOf electron (buckets self1)"
    using a2 [THEN conjunct2, rule_format, of electron] by simp
  then have t2: "\<forall>p \<in> set (bucketOf electron (buckets self2)). particleType p = electron"
    using eb el1 by simp
  from moveParticlesToAtom_no_protons [OF p3 cl _ t2 e2] show ?thesis by simp
qed

text \<open>
  Two protons in the atom and a target of one proton: the call returns, and the atom
  holds no proton.
\<close>

theorem setAtomConfiguration_decrease_removes_all_protons_witness:
  "map_sum id (length \<circ> protons \<circ> particleAtom)
     (setAtomConfiguration hd modelWithTwoProtons
        \<lparr>protonCount = 1, neutronCount = 0, electronCount = 0\<rparr>) = Inr 0 \<and>
   length (protons (particleAtom modelWithTwoProtons)) = 2"
proof -
  let ?after = "modelWithTwoProtons
         \<lparr>particleAtom := \<lparr>protons = [], neutrons = [], electrons = []\<rparr>,
          buckets := (buckets modelWithTwoProtons)
            \<lparr>protonBucket := protonBucket (buckets modelWithTwoProtons) @
                              protons (particleAtom modelWithTwoProtons)\<rparr>\<rparr>"
  have res: "setAtomConfiguration hd modelWithTwoProtons
        \<lparr>protonCount = 1, neutronCount = 0, electronCount = 0\<rparr> = Inr ?after"
    by (rule modelWithTwoProtons_set_one)
  have dec: "protonCount \<lparr>protonCount = 1, neutronCount = 0, electronCount = 0\<rparr>
               < int (length (protons (particleAtom modelWithTwoProtons)))"
    by (simp add: modelWithTwoProtons_def)
  have nb: "\<forall>p \<in> set (neutronBucket (buckets modelWithTwoProtons)). particleType p = neutron"
    by (simp add: modelWithTwoProtons_def)
  have eb: "\<forall>p \<in> set (electronBucket (buckets modelWithTwoProtons)). particleType p = electron"
    by (simp add: modelWithTwoProtons_def)
  have cl: "\<forall>b::Particle list. b \<noteq> [] \<longrightarrow> hd b \<in> set b"
    by simp
  have "protons (particleAtom ?after) = []"
    by (rule setAtomConfiguration_decrease_removes_all_protons [OF dec nb eb cl res])
  then show ?thesis
    unfolding res by (simp add: modelWithTwoProtons_def)
qed

subsection \<open>Nucleus stability\<close>

text \<open>
  C10. The derived stability value equals \<open>AtomIdentifier.isStable(protonCount,
  neutronCount)\<close> whenever the atom holds at least one nucleon, and it is true for the
  empty nucleus, whatever \<open>isStable\<close> says about it.
\<close>

theorem nucleusStableProperty_value:
  "(length (protons (particleAtom self)) + length (neutrons (particleAtom self)) > 0 \<longrightarrow>
      nucleusStableProperty isStable self =
        isStable (length (protons (particleAtom self))) (length (neutrons (particleAtom self)))) \<and>
   (length (protons (particleAtom self)) + length (neutrons (particleAtom self)) = 0 \<longrightarrow>
      nucleusStableProperty isStable self)"
  by (simp add: nucleusStableProperty_def Let_def)

text \<open>
  With an \<open>isStable\<close> that calls nothing stable, the empty atom of a new model is
  reported stable and the atom with two protons is not.
\<close>

theorem nucleusStableProperty_value_witness:
  "nucleusStableProperty (\<lambda>p n. False) new_BuildAnAtomModel \<and>
   \<not> nucleusStableProperty (\<lambda>p n. False) modelWithTwoProtons"
  using nucleusStableProperty_value [of new_BuildAnAtomModel "\<lambda>p n. False"]
        nucleusStableProperty_value [of modelWithTwoProtons "\<lambda>p n. False"]
  by (simp add: new_BuildAnAtomModel_def modelWithTwoProtons_def)

end
